theory Spec2Isabelle
  imports Complex_Main "HOL-Library.AList"
begin

section \<open>Strings\<close>

text \<open>
  The importer works on the text that the external converter produces for a PDF file.
  A Python string is modelled as a \<^typ>\<open>string\<close> whose characters are read as the code
  points 0 to 255 (Latin-1): the accented letters of the patterns (code points E9, EA, C9,
  B0, BA) and the non-breaking space (A0) are single characters, as they are in Python.
\<close>

definition nbsp :: char where
  "nbsp = CHR 0xA0"

definition e_acute :: char where
  "e_acute = CHR 0xE9"

definition e_circ :: char where
  "e_circ = CHR 0xEA"

definition E_acute :: char where
  "E_acute = CHR 0xC9"

definition degree_sign :: char where
  "degree_sign = CHR 0xB0"

definition ordinal_sign :: char where
  "ordinal_sign = CHR 0xBA"

definition backslash :: char where
  "backslash = CHR 0x5C"

text \<open>\<^verbatim>\<open>str.isdigit\<close> and \<^verbatim>\<open>str.isspace\<close> on the code points 0 to 255; they are
  also the classes \<^verbatim>\<open>\d\<close> and \<^verbatim>\<open>\s\<close> of the \<^verbatim>\<open>re\<close> module there.\<close>

definition is_digit :: "char \<Rightarrow> bool" where
  "is_digit c = (let n = (of_char c :: nat) in 48 \<le> n \<and> n \<le> 57)"

definition is_space :: "char \<Rightarrow> bool" where
  "is_space c = (let n = (of_char c :: nat) in
     (9 \<le> n \<and> n \<le> 13) \<or> (28 \<le> n \<and> n \<le> 32) \<or> n = 133 \<or> n = 160)"

text \<open>\<^verbatim>\<open>s.replace(old, new)\<close>: every occurrence of \<open>old\<close>, left to right, without
  overlap. For an empty \<open>old\<close> Python puts \<open>new\<close> before every character and at the end.\<close>

function replace_str :: "string \<Rightarrow> string \<Rightarrow> string \<Rightarrow> string" where
  "replace_str old new [] = (if old = [] then new else [])"
| "replace_str old new (c # cs) =
     (if old = [] then new @ c # replace_str old new cs
      else if take (length old) (c # cs) = old
        then new @ replace_str old new (drop (length old) (c # cs))
      else c # replace_str old new cs)"
  by pat_completeness auto
termination
  by (relation "measure (\<lambda>(old, new, s). length s)") auto

text \<open>\<^verbatim>\<open>s.split(sep)\<close> for a separator of one character, and the last piece
  \<^verbatim>\<open>s.split(sep)[-1]\<close>.\<close>

fun split_on :: "char \<Rightarrow> string \<Rightarrow> string list" where
  "split_on sep [] = [[]]"
| "split_on sep (c # cs) =
     (if c = sep then [] # split_on sep cs
      else (case split_on sep cs of
              [] \<Rightarrow> [[c]]
            | p # ps \<Rightarrow> (c # p) # ps))"

definition split_last :: "char \<Rightarrow> string \<Rightarrow> string" where
  "split_last sep s = last (split_on sep s)"

text \<open>\<^verbatim>\<open>s.strip()\<close>.\<close>

definition strip :: "string \<Rightarrow> string" where
  "strip s = rev (dropWhile is_space (rev (dropWhile is_space s)))"

text \<open>\<^verbatim>\<open>x or y\<close> on strings: an empty string is false.\<close>

definition str_or :: "string \<Rightarrow> string \<Rightarrow> string" where
  "str_or x y = (if x = [] then y else x)"

text \<open>Decimal digits of a natural number, and a number padded with zeros to a width
  (\<^verbatim>\<open>"%04d"\<close>).\<close>

fun digits_of :: "nat \<Rightarrow> string" where
  "digits_of n =
     (if n < 10 then [char_of (48 + n)]
      else digits_of (n div 10) @ [char_of (48 + n mod 10)])"

declare digits_of.simps [simp del]

definition zero_pad :: "nat \<Rightarrow> nat \<Rightarrow> string" where
  "zero_pad w n = replicate (w - length (digits_of n)) (CHR ''0'') @ digits_of n"

definition digit_val :: "char \<Rightarrow> nat" where
  "digit_val c = of_char c - 48"

definition nat_of_digits :: "string \<Rightarrow> nat" where
  "nat_of_digits ds = foldl (\<lambda>acc c. 10 * acc + digit_val c) 0 ds"


section \<open>Regular expressions\<close>

text \<open>
  The importer finds every field with the \<^verbatim>\<open>re\<close> module. The patterns of the source use
  literals, the classes \<^verbatim>\<open>\d\<close>, \<^verbatim>\<open>\s\<close>, \<^verbatim>\<open>.\<close> and bracket sets, concatenation,
  alternation, the greedy quantifiers \<^verbatim>\<open>*\<close>, \<^verbatim>\<open>+\<close>, \<^verbatim>\<open>?\<close>, \<^verbatim>\<open>{m,n}\<close>, one lazy
  \<^verbatim>\<open>+?\<close>, and capturing groups; no anchor, look-around or back-reference. The
  matcher below is the backtracking search of \<^verbatim>\<open>re\<close> for this fragment: alternatives
  are tried left to right, a greedy quantifier tries one more iteration before it tries to
  go on, a lazy one the other way round, and the first complete match wins.
\<close>

datatype cclass = CChar char | CRange char char | CDigit | CSpace | CNotSpace

datatype atom = Lit char | Digit | Space | Dot | Cls "cclass list"

fun cclass_ok :: "cclass \<Rightarrow> char \<Rightarrow> bool" where
  "cclass_ok (CChar a) c = (c = a)"
| "cclass_ok (CRange a b) c =
     ((of_char a :: nat) \<le> of_char c \<and> (of_char c :: nat) \<le> of_char b)"
| "cclass_ok CDigit c = is_digit c"
| "cclass_ok CSpace c = is_space c"
| "cclass_ok CNotSpace c = (\<not> is_space c)"

text \<open>\<^verbatim>\<open>.\<close> is any character but the newline (no flag is ever passed).\<close>

fun atom_ok :: "atom \<Rightarrow> char \<Rightarrow> bool" where
  "atom_ok (Lit a) c = (c = a)"
| "atom_ok Digit c = is_digit c"
| "atom_ok Space c = is_space c"
| "atom_ok Dot c = (c \<noteq> CHR 0x0A)"
| "atom_ok (Cls cs) c = list_ex (\<lambda>k. cclass_ok k c) cs"

datatype regex =
    Eps
  | Atom atom
  | Cat regex regex
  | Alt regex regex
  | Star regex
  | LazyStar regex
  | Rep nat nat regex
  | Grp nat regex

text \<open>The captured groups, by group number; a group that took no part has no entry.\<close>

type_synonym caps = "(nat \<times> string) list"

text \<open>
  The matcher runs a stack of pending work: a pattern still to match, the end of a group
  (with the input at the group's start, so that the captured text can be cut out), or the
  check that an iteration of an unbounded quantifier consumed something.
\<close>

datatype item = R regex | Close nat string | Guard nat

fun rweight :: "regex \<Rightarrow> nat" where
  "rweight Eps = 1"
| "rweight (Atom a) = 1"
| "rweight (Cat r1 r2) = 1 + rweight r1 + rweight r2"
| "rweight (Alt r1 r2) = 1 + rweight r1 + rweight r2"
| "rweight (Star r) = 2 + rweight r"
| "rweight (LazyStar r) = 2 + rweight r"
| "rweight (Rep lo hi r) = 1 + (1 + rweight r) * (1 + hi)"
| "rweight (Grp n r) = 2 + rweight r"

fun sweight :: "item list \<Rightarrow> nat \<Rightarrow> nat" where
  "sweight [] n = 0"
| "sweight (R r # is) n = rweight r + sweight is n"
| "sweight (Close k s0 # is) n = 1 + sweight is n"
| "sweight (Guard n0 # is) n = (if n < n0 then 1 + sweight is n else 0)"

function rmatch :: "item list \<Rightarrow> string \<Rightarrow> caps \<Rightarrow> (string \<times> caps) option" where
  "rmatch [] s g = Some (s, g)"
| "rmatch (Close n s0 # is) s g =
     rmatch is s (AList.update n (take (length s0 - length s) s0) g)"
| "rmatch (Guard n0 # is) s g = (if length s < n0 then rmatch is s g else None)"
| "rmatch (R Eps # is) s g = rmatch is s g"
| "rmatch (R (Atom a) # is) [] g = None"
| "rmatch (R (Atom a) # is) (c # cs) g = (if atom_ok a c then rmatch is cs g else None)"
| "rmatch (R (Cat r1 r2) # is) s g = rmatch (R r1 # R r2 # is) s g"
| "rmatch (R (Alt r1 r2) # is) s g =
     (case rmatch (R r1 # is) s g of
        Some m \<Rightarrow> Some m
      | None \<Rightarrow> rmatch (R r2 # is) s g)"
| "rmatch (R (Grp n r) # is) s g = rmatch (R r # Close n s # is) s g"
| "rmatch (R (Star r) # is) s g =
     (case rmatch (R r # Guard (length s) # R (Star r) # is) s g of
        Some m \<Rightarrow> Some m
      | None \<Rightarrow> rmatch is s g)"
| "rmatch (R (LazyStar r) # is) s g =
     (case rmatch is s g of
        Some m \<Rightarrow> Some m
      | None \<Rightarrow> rmatch (R r # Guard (length s) # R (LazyStar r) # is) s g)"
| "rmatch (R (Rep lo hi r) # is) s g =
     (if hi = 0 then rmatch is s g
      else case rmatch (R r # R (Rep (lo - 1) (hi - 1) r) # is) s g of
             Some m \<Rightarrow> Some m
           | None \<Rightarrow> if lo = 0 then rmatch is s g else None)"
  by pat_completeness auto
termination
  by (relation "measures [\<lambda>(is, s, g). length s, \<lambda>(is, s, g). sweight is (length s)]")
     (auto simp: algebra_simps)

text \<open>A match object: the matched text (\<^verbatim>\<open>group(0)\<close>), the groups, and the input that
  follows the match.\<close>

datatype match = Match (whole: string) (grps: caps) (after: string)

definition match_at :: "regex \<Rightarrow> string \<Rightarrow> match option" where
  "match_at r s =
     (case rmatch [R r] s [] of
        None \<Rightarrow> None
      | Some (s', g) \<Rightarrow> Some (Match (take (length s - length s') s) g s'))"

text \<open>\<^verbatim>\<open>re.search\<close>: the match at the leftmost position that has one.\<close>

fun re_search :: "regex \<Rightarrow> string \<Rightarrow> match option" where
  "re_search r [] = match_at r []"
| "re_search r (c # cs) =
     (case match_at r (c # cs) of
        Some m \<Rightarrow> Some m
      | None \<Rightarrow> re_search r cs)"

text \<open>\<^verbatim>\<open>m.group(i)\<close> for \<open>i > 0\<close>: \<open>None\<close> when the group took no part.\<close>

definition group :: "match \<Rightarrow> nat \<Rightarrow> string option" where
  "group m i = map_of (grps m) i"

text \<open>
  \<^verbatim>\<open>re.findall\<close>: the matches from left to right, each search starting where the match
  before it ended (one character further after an empty match). \<open>skip\<close> counts the
  characters of the last match that are still to be passed over. Every pattern given to
  \<^verbatim>\<open>findall\<close> has several groups, so each result is the tuple of its groups, with the
  empty string for a group that took no part: \<open>chunk m i\<close> is \<^verbatim>\<open>chunk[i]\<close>.
\<close>

fun findall_from :: "regex \<Rightarrow> nat \<Rightarrow> string \<Rightarrow> match list" where
  "findall_from r skip [] =
     (if skip = 0 then (case match_at r [] of None \<Rightarrow> [] | Some m \<Rightarrow> [m]) else [])"
| "findall_from r skip (c # cs) =
     (if skip > 0 then findall_from r (skip - 1) cs
      else case match_at r (c # cs) of
             None \<Rightarrow> findall_from r 0 cs
           | Some m \<Rightarrow> m # findall_from r (length (whole m) - 1) cs)"

definition re_findall :: "regex \<Rightarrow> string \<Rightarrow> match list" where
  "re_findall r s = findall_from r 0 s"

definition chunk :: "match \<Rightarrow> nat \<Rightarrow> string" where
  "chunk m i = (case map_of (grps m) (Suc i) of None \<Rightarrow> [] | Some w \<Rightarrow> w)"

text \<open>\<^verbatim>\<open>re.sub(pattern, repl, s)\<close> with a replacement free of group references; the
  scan is that of \<^verbatim>\<open>findall\<close>.\<close>

fun sub_from :: "regex \<Rightarrow> string \<Rightarrow> nat \<Rightarrow> string \<Rightarrow> string" where
  "sub_from r repl skip [] =
     (if skip = 0 then (case match_at r [] of None \<Rightarrow> [] | Some m \<Rightarrow> repl) else [])"
| "sub_from r repl skip (c # cs) =
     (if skip > 0 then sub_from r repl (skip - 1) cs
      else case match_at r (c # cs) of
             None \<Rightarrow> c # sub_from r repl 0 cs
           | Some m \<Rightarrow>
               if whole m = [] then repl @ c # sub_from r repl 0 cs
               else repl @ sub_from r repl (length (whole m) - 1) cs)"

definition re_sub :: "regex \<Rightarrow> string \<Rightarrow> string \<Rightarrow> string" where
  "re_sub r repl s = sub_from r repl 0 s"

subsection \<open>Writing patterns\<close>

definition lits :: "string \<Rightarrow> regex" where
  "lits s = foldr (\<lambda>c r. Cat (Atom (Lit c)) r) s Eps"

definition rseq :: "regex list \<Rightarrow> regex" where
  "rseq rs = foldr Cat rs Eps"

definition alts :: "regex list \<Rightarrow> regex" where
  "alts rs = (case rs of [] \<Rightarrow> Eps | _ \<Rightarrow> foldr Alt (butlast rs) (last rs))"

definition rplus :: "regex \<Rightarrow> regex" where
  "rplus r = Cat r (Star r)"

definition lazy_plus :: "regex \<Rightarrow> regex" where
  "lazy_plus r = Cat r (LazyStar r)"

definition opt :: "regex \<Rightarrow> regex" where
  "opt r = Rep 0 1 r"

definition times :: "nat \<Rightarrow> regex \<Rightarrow> regex" where
  "times n r = Rep n n r"

abbreviation dg :: regex where
  "dg \<equiv> Atom Digit"

abbreviation ws :: regex where
  "ws \<equiv> Atom Space"

abbreviation any_char :: regex where
  "any_char \<equiv> Atom Dot"

text \<open>\<^verbatim>\<open>[,.]\<close>, \<^verbatim>\<open>[A-Z]\<close>, \<^verbatim>\<open>[A-Z,0-9]\<close> and \<^verbatim>\<open>[\s\S]\<close>.\<close>

definition comma_or_dot :: regex where
  "comma_or_dot = Atom (Cls [CChar (CHR '',''), CChar (CHR ''.'')])"

definition upper :: regex where
  "upper = Atom (Cls [CRange (CHR ''A'') (CHR ''Z'')])"

definition isin_char :: regex where
  "isin_char = Atom (Cls [CRange (CHR ''A'') (CHR ''Z''), CChar (CHR '',''),
                          CRange (CHR ''0'') (CHR ''9'')])"

definition anything :: regex where
  "anything = Atom (Cls [CSpace, CNotSpace])"

text \<open>\<^verbatim>\<open>\d{1,2}\/\d{2}\/\d{4}\<close>, \<^verbatim>\<open>\d{2}\/\d{2}\/\d{4}\<close> and \<^verbatim>\<open>\d*/\d*/\d*\<close>.\<close>

definition date_dmy :: regex where
  "date_dmy = rseq [Rep 1 2 dg, lits ''/'', times 2 dg, lits ''/'', times 4 dg]"

definition date_ddmy :: regex where
  "date_ddmy = rseq [times 2 dg, lits ''/'', times 2 dg, lits ''/'', times 4 dg]"

definition date_loose :: regex where
  "date_loose = rseq [Star dg, lits ''/'', Star dg, lits ''/'', Star dg]"


section \<open>Decimal numbers\<close>

text \<open>
  \<^verbatim>\<open>decimal.Decimal\<close>, for the finite numbers: a sign, a coefficient and an exponent
  (\<^verbatim>\<open>Decimal('-12.50')\<close> is \<open>Decimal True 1250 (-2)\<close>), so that the digits written in
  the statement are kept. The constructor reads the numeric strings of the library: white
  space around the number and underscores are dropped, then come an optional sign, digits
  with an optional point (at least one digit), and an optional exponent. The special
  values \<^verbatim>\<open>Infinity\<close> and \<^verbatim>\<open>NaN\<close> are not modelled (no pattern of the importer
  captures a letter in front of a digit); any other string raises
  \<^verbatim>\<open>InvalidOperation\<close>, here \<open>None\<close>. Sums and products are exact, as they are in
  the library for coefficients of up to 28 digits.
\<close>

datatype decimal = Decimal (dneg: bool) (coef: nat) (expo: int)

definition parse_exponent :: "string \<Rightarrow> int option" where
  "parse_exponent s =
     (case s of
        [] \<Rightarrow> Some 0
      | e # t \<Rightarrow>
          if e = CHR ''e'' \<or> e = CHR ''E'' then
            (let neg = (case t of [] \<Rightarrow> False | c # _ \<Rightarrow> c = CHR ''-'');
                 ds = (case t of
                         [] \<Rightarrow> []
                       | c # u \<Rightarrow> if c = CHR ''-'' \<or> c = CHR ''+'' then u else t)
             in if ds \<noteq> [] \<and> list_all is_digit ds
                then Some (if neg then - int (nat_of_digits ds) else int (nat_of_digits ds))
                else None)
          else None)"

definition Decimal_of_str :: "string \<Rightarrow> decimal option" where
  "Decimal_of_str s =
     (let s1 = filter (\<lambda>c. c \<noteq> CHR ''_'') (strip s);
          neg = (case s1 of [] \<Rightarrow> False | c # _ \<Rightarrow> c = CHR ''-'');
          s2 = (case s1 of
                  [] \<Rightarrow> []
                | c # t \<Rightarrow> if c = CHR ''-'' \<or> c = CHR ''+'' then t else s1);
          ip = takeWhile is_digit s2;
          r1 = dropWhile is_digit s2;
          fp = (case r1 of
                  [] \<Rightarrow> []
                | c # t \<Rightarrow> if c = CHR ''.'' then takeWhile is_digit t else []);
          r2 = (case r1 of
                  [] \<Rightarrow> []
                | c # t \<Rightarrow> if c = CHR ''.'' then dropWhile is_digit t else r1)
      in if ip = [] \<and> fp = [] then None
         else (case parse_exponent r2 of
                 None \<Rightarrow> None
               | Some e \<Rightarrow> Some (Decimal neg (nat_of_digits (ip @ fp)) (e - int (length fp)))))"

text \<open>\<^verbatim>\<open>Decimal(0)\<close> and \<^verbatim>\<open>Decimal()\<close>.\<close>

definition dec_zero :: decimal where
  "dec_zero = Decimal False 0 0"

text \<open>\<^verbatim>\<open>d * i\<close> for a Python integer \<open>i\<close>.\<close>

definition dec_mul_int :: "decimal \<Rightarrow> int \<Rightarrow> decimal" where
  "dec_mul_int d i = Decimal (dneg d \<noteq> (i < 0)) (coef d * nat \<bar>i\<bar>) (expo d)"

definition dec_signed :: "decimal \<Rightarrow> int" where
  "dec_signed d = (if dneg d then - int (coef d) else int (coef d))"

text \<open>\<^verbatim>\<open>a + b\<close>: the exponent is the smaller one, and a zero sum is negative only when
  both terms are.\<close>

definition dec_add :: "decimal \<Rightarrow> decimal \<Rightarrow> decimal" where
  "dec_add a b =
     (let e = min (expo a) (expo b);
          v = dec_signed a * 10 ^ nat (expo a - e) + dec_signed b * 10 ^ nat (expo b - e)
      in Decimal (if v = 0 then dneg a \<and> dneg b else v < 0) (nat \<bar>v\<bar>) e)"

text \<open>The number a decimal stands for, and the decimal with the other sign.\<close>

definition dec_val :: "decimal \<Rightarrow> rat" where
  "dec_val d =
     (if 0 \<le> expo d then of_int (dec_signed d) * 10 ^ nat (expo d)
      else of_int (dec_signed d) / 10 ^ nat (- expo d))"

definition dec_neg :: "decimal \<Rightarrow> decimal" where
  "dec_neg d = Decimal (\<not> dneg d) (coef d) (expo d)"


section \<open>Dates\<close>

text \<open>\<^verbatim>\<open>datetime.date\<close>: year, month, day. \<^verbatim>\<open>d + datetime.timedelta(1)\<close> is the next
  day, and raises \<^verbatim>\<open>OverflowError\<close> after 9999-12-31.\<close>

datatype date = Date (year: nat) (month: nat) (day: nat)

datatype error =
    AttributeError
  | KeyError
  | UnboundLocalError
  | TypeError
  | InvalidOperation
  | ValueError
  | ParserError
  | OverflowError
  | AssertionError

definition leap_year :: "nat \<Rightarrow> bool" where
  "leap_year y = (y mod 4 = 0 \<and> (y mod 100 \<noteq> 0 \<or> y mod 400 = 0))"

definition days_in_month :: "nat \<Rightarrow> nat \<Rightarrow> nat" where
  "days_in_month y m =
     (if m = 2 then (if leap_year y then 29 else 28)
      else if m = 4 \<or> m = 6 \<or> m = 9 \<or> m = 11 then 30
      else 31)"

definition next_day :: "date \<Rightarrow> error + date" where
  "next_day d =
     (if day d < days_in_month (year d) (month d) then Inr (Date (year d) (month d) (day d + 1))
      else if month d < 12 then Inr (Date (year d) (month d + 1) 1)
      else if year d < 9999 then Inr (Date (year d + 1) 1 1)
      else Inl OverflowError)"

text \<open>\<^verbatim>\<open>str(d)\<close> for a date, and for the \<^verbatim>\<open>None\<close> that \<open>file_date\<close> returns when it
  finds no date.\<close>

definition str_date :: "date \<Rightarrow> string" where
  "str_date d = zero_pad 4 (year d) @ ''-'' @ zero_pad 2 (month d) @ ''-'' @ zero_pad 2 (day d)"

definition str_date_opt :: "date option \<Rightarrow> string" where
  "str_date_opt d = (case d of None \<Rightarrow> ''None'' | Some x \<Rightarrow> str_date x)"

text \<open>
  The dates are read by \<^verbatim>\<open>dateutil.parser.parse(s, dayfirst="True")\<close>, a library outside
  the repository: it is a parameter of the model, \<open>None\<close> where the library raises.
\<close>

record env =
  parse_datetime :: "string \<Rightarrow> date option"

definition parse_date :: "env \<Rightarrow> string option \<Rightarrow> error + date" where
  "parse_date ev s =
     (case s of
        None \<Rightarrow> Inl TypeError
      | Some t \<Rightarrow> (case parse_datetime ev t of None \<Rightarrow> Inl ParserError | Some d \<Rightarrow> Inr d))"

text \<open>Errors end a computation, as an exception does.\<close>

definition bind_err :: "error + 'a \<Rightarrow> ('a \<Rightarrow> error + 'b) \<Rightarrow> error + 'b" where
  "bind_err m k = (case m of Inl e \<Rightarrow> Inl e | Inr x \<Rightarrow> k x)"


section \<open>Ledger records\<close>

text \<open>
  The values of \<^verbatim>\<open>beancount.core\<close> that the importer builds: amounts, costs, postings,
  transactions and balance assertions. The fields that the importer always leaves at
  \<^verbatim>\<open>None\<close> (a posting's flag and meta, a cost's date and label, a balance's tolerance)
  are left out. A posting's account is whatever the importer passes, a string or
  \<^verbatim>\<open>None\<close>. The date of a balance is a date or the empty string that \<open>extract\<close> starts
  from.
\<close>

datatype amount = Amount (number: decimal) (currency: "string option")

datatype cost = Cost (cost_number: decimal) (cost_currency: "string option")

datatype posting =
  Posting (account: "string option") (units: amount) (cost: "cost option")
          (price: "amount option")

datatype metaval = MStr string | MInt nat

type_synonym meta = "(string \<times> metaval) list"

datatype balance_date = BDate date | BEmpty

datatype entry =
    Transaction (t_meta: meta) (t_date: date) (t_flag: string) (t_payee: string)
                (t_narration: "string option") (t_tags: "string set") (t_links: "string set")
                (t_postings: "posting list")
  | Balance (b_meta: meta) (b_date: balance_date) (b_account: string) (b_amount: amount)

fun entry_meta :: "entry \<Rightarrow> meta" where
  "entry_meta (Transaction m d fl p n tg l ps) = m"
| "entry_meta (Balance m d a x) = m"

text \<open>\<^verbatim>\<open>data.new_metadata(filename, lineno)\<close>, and \<^verbatim>\<open>meta[k] = v\<close>.\<close>

definition new_metadata :: "string \<Rightarrow> nat \<Rightarrow> meta" where
  "new_metadata fn lineno = [(''filename'', MStr fn), (''lineno'', MInt lineno)]"

definition meta_set :: "string \<Rightarrow> string \<Rightarrow> meta \<Rightarrow> meta" where
  "meta_set k v m = AList.update k (MStr v) m"

definition FLAG_OKAY :: string where
  "FLAG_OKAY = ''*''"

text \<open>
  \<^verbatim>\<open>beancount.core.number.D\<close>, a library function: the empty string gives
  \<^verbatim>\<open>Decimal()\<close>, any other string is cleaned of commas and spaces and given to
  \<^verbatim>\<open>Decimal\<close>, whose failure is raised as \<^verbatim>\<open>ValueError\<close>.
\<close>

definition D :: "string \<Rightarrow> error + decimal" where
  "D s =
     (if s = [] then Inr dec_zero
      else (case Decimal_of_str (filter (\<lambda>c. c \<noteq> CHR '','' \<and> c \<noteq> CHR '' '') s) of
              None \<Rightarrow> Inl ValueError
            | Some d \<Rightarrow> Inr d))"

text \<open>\<^verbatim>\<open>Decimal(s)\<close> as a step that may raise.\<close>

definition to_Decimal :: "string \<Rightarrow> error + decimal" where
  "to_Decimal s = (case Decimal_of_str s of None \<Rightarrow> Inl InvalidOperation | Some d \<Rightarrow> Inr d)"


section \<open>The importer\<close>

text \<open>
  A file as the importer sees it: its MIME type, its name, and the text that
  \<^verbatim>\<open>file.convert(pdf_to_text)\<close> returns. The importer object has the account directory,
  the debug flag, and the attribute \<open>type\<close>, which exists only once \<open>identify\<close> has set
  it.
\<close>

record doc_file =
  mimetype :: string
  name :: string
  converted :: string

record importer =
  accountList :: "(string \<times> string) list"
  debug :: bool
  type :: "string option"

datatype pyarg = PyDict "(string \<times> string) list" | PyOther

datatype pyval = PyFalse | PyInt int | PyNone

text \<open>\<^verbatim>\<open>__init__\<close>: the assertion on the argument, then the two assignments.\<close>

definition init :: "pyarg \<Rightarrow> bool \<Rightarrow> error + importer" where
  "init accounts dbg =
     (case accounts of
        PyOther \<Rightarrow> Inl AssertionError
      | PyDict al \<Rightarrow> Inr \<lparr>accountList = al, debug = True, type = None\<rparr>)"

subsection \<open>identify\<close>

definition apostrophe :: char where
  "apostrophe = CHR 0x27"

text \<open>The seven markers, in the order of the source.\<close>

definition rx_dividende :: regex where
  "rx_dividende = lits ''COUPONS REMBOURSEMENTS :''"

definition rx_espece :: regex where
  "rx_espece = lits ''RELEVE COMPTE ESPECES :''"

definition rx_bourse :: regex where
  "rx_bourse = lits ''OPERATION DE BOURSE''"

definition rx_opcvm :: regex where
  "rx_opcvm = lits ''OPERATION SUR OPC''"

definition rx_cb :: regex where
  "rx_cb = lits (''Relev'' @ [e_acute] @ '' de Carte'')"

text \<open>\<^verbatim>\<open>BOURSORAMA BANQUE|BOUSFRPPXXX|RCS\sNanterre\s351\s?058\s?151\<close>\<close>

definition rx_compte :: regex where
  "rx_compte =
     alts [lits ''BOURSORAMA BANQUE'', lits ''BOUSFRPPXXX'',
           rseq [lits ''RCS'', ws, lits ''Nanterre'', ws, lits ''351'', opt ws, lits ''058'',
                 opt ws, lits ''151'']]"

text \<open>The amortization markers: \<^verbatim>\<open>tableau d'amortissement\<close>, or one of the two
  schedule titles (written with E9 and C9).\<close>

definition rx_amortissement :: regex where
  "rx_amortissement =
     alts [lits (''tableau d'' @ [apostrophe] @ ''amortissement''),
           lits (''Ech'' @ [e_acute] @ ''ancier Pr'' @ [e_acute] @ ''visionnel''),
           lits ([E_acute] @ ''ch'' @ [e_acute] @ ''ancier D'' @ [e_acute] @ ''finitif'')]"

text \<open>\<^verbatim>\<open>re.search(p, s) is not None\<close>.\<close>

definition found :: "regex \<Rightarrow> string \<Rightarrow> bool" where
  "found r s = (re_search r s \<noteq> None)"

text \<open>The chain of checks under \<^verbatim>\<open>if text:\<close>: the tag that the first matching check
  assigns to \<open>self.type\<close>, or \<open>None\<close> when the function falls through.\<close>

definition classify :: "string \<Rightarrow> string option" where
  "classify s =
     (if s = [] then None
      else if found rx_dividende s then Some ''DividendeBourse''
      else if found rx_espece s then Some ''EspeceBourse''
      else if found rx_bourse s then Some ''Bourse''
      else if found rx_opcvm s then Some ''OPCVM''
      else if found rx_cb s then Some ''CB''
      else if found rx_compte s then Some ''Compte''
      else if found rx_amortissement s then Some ''Amortissement''
      else None)"

text \<open>\<open>identify\<close> returns \<^verbatim>\<open>False\<close> for a file that is not a PDF, 1 when a check
  matched (after it has stored the tag), and \<^verbatim>\<open>None\<close> otherwise; in the last case the
  attribute is left as it was.\<close>

definition identify :: "importer \<Rightarrow> doc_file \<Rightarrow> pyval \<times> importer" where
  "identify imp f =
     (if mimetype f \<noteq> ''application/pdf'' then (PyFalse, imp)
      else (case classify (converted f) of
              Some t \<Rightarrow> (PyInt 1, imp\<lparr>type := Some t\<rparr>)
            | None \<Rightarrow> (PyNone, imp)))"

subsection \<open>file\_name, file\_account, file\_date\<close>

text \<open>Reading \<open>self.type\<close> raises \<^verbatim>\<open>AttributeError\<close> while the attribute does not
  exist.\<close>

definition file_name :: "importer \<Rightarrow> doc_file \<Rightarrow> (error + string) \<times> importer" where
  "file_name imp f =
     (let imp1 = snd (identify imp f)
      in (case type imp1 of
            None \<Rightarrow> (Inl AttributeError, imp1)
          | Some t \<Rightarrow>
              (Inr (if t = ''DividendeBourse'' then ''Relev'' @ [e_acute] @ '' Dividendes.pdf''
                    else if t = ''EspeceBourse'' then ''Relev'' @ [e_acute] @ '' Espece.pdf''
                    else if t = ''Bourse'' then ''Relev'' @ [e_acute] @ '' Operation.pdf''
                    else if t = ''Compte'' then ''Relev'' @ [e_acute] @ '' Compte.pdf''
                    else if t = ''CB'' then ''Relev'' @ [e_acute] @ '' CB.pdf''
                    else ''Boursorama.pdf''), imp1)))"

text \<open>The account patterns:
  \<^verbatim>\<open>\s*(\d{11})\<close>,
  \<^verbatim>\<open>\s*((4979|4810)\*{8}\d{4})\<close>,
  \<^verbatim>\<open>N(?:B0|BA) du crE9dit\s*:\s?(\d{5}\s?-\s?\d{11})\<close>,
  \<^verbatim>\<open>40618\s\d{5}\s(\d{11})\s\<close>,
  \<^verbatim>\<open>\d{5}\s\d{5}\s(\d{11})\s\<close>,
  and the security identifier \<^verbatim>\<open>Code ISIN\s:\s*([A-Z,0-9]{12})\<close>.\<close>

definition rx_acc_compte :: regex where
  "rx_acc_compte = rseq [Star ws, Grp 1 (times 11 dg)]"

definition rx_acc_cb :: regex where
  "rx_acc_cb =
     rseq [Star ws,
           Grp 1 (rseq [Grp 2 (Alt (lits ''4979'') (lits ''4810'')),
                        times 8 (Atom (Lit (CHR ''*''))), times 4 dg])]"

definition rx_acc_amortissement :: regex where
  "rx_acc_amortissement =
     rseq [lits ''N'', Alt (Atom (Lit degree_sign)) (Atom (Lit ordinal_sign)),
           lits ('' du cr'' @ [e_acute] @ ''dit''), Star ws, lits '':'', opt ws,
           Grp 1 (rseq [times 5 dg, opt ws, lits ''-'', opt ws, times 11 dg])]"

definition rx_acc_espece :: regex where
  "rx_acc_espece = rseq [lits ''40618'', ws, times 5 dg, ws, Grp 1 (times 11 dg), ws]"

definition rx_acc_bourse :: regex where
  "rx_acc_bourse = rseq [times 5 dg, ws, times 5 dg, ws, Grp 1 (times 11 dg), ws]"

definition rx_isin :: regex where
  "rx_isin = rseq [lits ''Code ISIN'', ws, lits '':'', Star ws, Grp 1 (times 12 isin_char)]"

text \<open>The pattern \<open>control\<close> that \<open>file_account\<close> assigns for a tag, if it assigns
  one.\<close>

definition account_control :: "string \<Rightarrow> regex option" where
  "account_control t =
     (if t = ''Compte'' then Some rx_acc_compte
      else if t = ''CB'' then Some rx_acc_cb
      else if t = ''Amortissement'' then Some rx_acc_amortissement
      else if t = ''EspeceBourse'' \<or> t = ''DividendeBourse'' then Some rx_acc_espece
      else if t = ''Bourse'' \<or> t = ''OPCVM'' then Some rx_acc_bourse
      else None)"

text \<open>\<^verbatim>\<open>self.accountList[k]\<close>: \<^verbatim>\<open>KeyError\<close> for a key that the directory does not
  have (\<^verbatim>\<open>None\<close> is never a key of it).\<close>

definition account_of :: "importer \<Rightarrow> string option \<Rightarrow> error + string" where
  "account_of imp k =
     (case k of
        None \<Rightarrow> Inl KeyError
      | Some c \<Rightarrow> (case map_of (accountList imp) c of None \<Rightarrow> Inl KeyError | Some a \<Rightarrow> Inr a))"

text \<open>
  The local variable \<open>compte\<close> of \<open>extract\<close> is assigned only when the account pattern
  matches; it is printed when the debug flag is set, and reading it while it is unassigned
  raises \<^verbatim>\<open>UnboundLocalError\<close>.
\<close>

datatype 'a local = Unbound | Bound 'a

definition local_of :: "match option \<Rightarrow> (match \<Rightarrow> 'a) \<Rightarrow> 'a local" where
  "local_of m v = (case m of None \<Rightarrow> Unbound | Some x \<Rightarrow> Bound (v x))"

definition debug_print :: "importer \<Rightarrow> 'a local \<Rightarrow> error + unit" where
  "debug_print imp v =
     (if debug imp then (case v of Unbound \<Rightarrow> Inl UnboundLocalError | Bound x \<Rightarrow> Inr ())
      else Inr ())"

definition local_account :: "importer \<Rightarrow> string option local \<Rightarrow> error + string" where
  "local_account imp v =
     (case v of Unbound \<Rightarrow> Inl UnboundLocalError | Bound k \<Rightarrow> account_of imp k)"

text \<open>
  \<open>file_account\<close> returns a ledger account, or \<^verbatim>\<open>None\<close> where the function falls off
  its end. With the debug flag set, \<^verbatim>\<open>print(match.group(1))\<close> raises when the account
  pattern did not match. The branch for the fixed \<^verbatim>\<open>:Cash\<close> suffix is taken for the tags
  \<^verbatim>\<open>DividendeBourse\<close> and \<^verbatim>\<open>EspeceDividende\<close>.
\<close>

definition file_account :: "importer \<Rightarrow> doc_file \<Rightarrow> (error + string option) \<times> importer" where
  "file_account imp f =
     (let s = converted f;
          imp1 = snd (identify imp f)
      in (case type imp1 of
            None \<Rightarrow> (Inl AttributeError, imp1)
          | Some t \<Rightarrow>
              (case account_control t of
                 None \<Rightarrow> (Inl UnboundLocalError, imp1)
               | Some control \<Rightarrow>
                   (case re_search control s of
                      None \<Rightarrow> (if debug imp1 then Inl AttributeError else Inr None, imp1)
                    | Some m \<Rightarrow>
                        (let compte = group m 1
                         in if t = ''Bourse'' \<or> t = ''OPCVM'' then
                              (case re_search rx_isin s of
                                 None \<Rightarrow> (Inr None, imp1)
                               | Some mi \<Rightarrow>
                                   (bind_err (account_of imp1 compte) (\<lambda>a.
                                    case group mi 1 of
                                      None \<Rightarrow> Inl TypeError
                                    | Some isin \<Rightarrow> Inr (Some (a @ '':'' @ isin))), imp1))
                            else if t = ''DividendeBourse'' \<or> t = ''EspeceDividende'' then
                              (bind_err (account_of imp1 compte) (\<lambda>a. Inr (Some (a @ '':Cash''))),
                               imp1)
                            else
                              (bind_err (account_of imp1 compte) (\<lambda>a. Inr (Some a)), imp1))))))"

text \<open>\<^verbatim>\<open>(?:le\s|au\s*|Date dE9part\s*:\s)(\d*/\d*/\d*)\<close>\<close>

definition rx_file_date :: regex where
  "rx_file_date =
     rseq [alts [rseq [lits ''le'', ws], rseq [lits ''au'', Star ws],
                 rseq [lits (''Date d'' @ [e_acute] @ ''part''), Star ws, lits '':'', ws]],
           Grp 1 date_loose]"

definition file_date :: "env \<Rightarrow> doc_file \<Rightarrow> error + date option" where
  "file_date ev f =
     (case re_search rx_file_date (converted f) of
        None \<Rightarrow> Inr None
      | Some m \<Rightarrow> bind_err (parse_date ev (group m 1)) (\<lambda>d. Inr (Some d)))"

subsection \<open>Amounts\<close>

text \<open>
  The dividend, trade and fund dialects clean an amount with the same chain, written out
  at every use in the source:
  \<^verbatim>\<open>.replace(",", ".").replace(" ", "").replace("\xa0", "").replace(r"\u00a", "")\<close>.
  The last argument is a raw string: the five characters backslash, u, 0, 0, a.
\<close>

definition normalize_amount :: "string \<Rightarrow> string" where
  "normalize_amount s =
     replace_str (backslash # ''u00a'') []
       (replace_str [nbsp] []
          (replace_str '' '' []
             (replace_str '','' ''.'' s)))"

text \<open>\<^verbatim>\<open>Decimal(\<dots>)\<close> of the cleaned string, and the one place where the source
  writes \<^verbatim>\<open>Decimal(\<dots> or 0)\<close>.\<close>

definition amount_of :: "string \<Rightarrow> error + decimal" where
  "amount_of s = to_Decimal (normalize_amount s)"

definition amount_or_zero :: "string \<Rightarrow> error + decimal" where
  "amount_or_zero s =
     (if normalize_amount s = [] then Inr dec_zero else to_Decimal (normalize_amount s))"

text \<open>The checking and card dialects drop the points that group thousands:
  \<^verbatim>\<open>.replace(".", "").replace(",", ".")\<close>.\<close>

definition normalize_grouped :: "string \<Rightarrow> string" where
  "normalize_grouped s = replace_str '','' ''.'' (replace_str ''.'' [] s)"

definition EUR :: "string option" where
  "EUR = Some ''EUR''"

text \<open>A posting with no cost and no price.\<close>

definition simple_posting :: "string option \<Rightarrow> decimal \<Rightarrow> string option \<Rightarrow> posting" where
  "simple_posting a n c = Posting a (Amount n c) None None"

text \<open>The metadata of a record: the file name and a line number, then the origin tag,
  then the document label.\<close>

definition meta_source :: "doc_file \<Rightarrow> nat \<Rightarrow> meta" where
  "meta_source f i = meta_set ''source'' ''pdfbourso'' (new_metadata (name f) i)"

definition meta_full :: "doc_file \<Rightarrow> nat \<Rightarrow> string \<Rightarrow> meta" where
  "meta_full f i document = meta_set ''document'' document (meta_source f i)"

subsection \<open>extract: dividends\<close>

text \<open>\<^verbatim>\<open>\d{0,3}\s\d{1,3}[,.]\d{2}\<close>, and the line pattern with its nine groups, the
  sixth optional.\<close>

definition rx_amount2 :: regex where
  "rx_amount2 = rseq [Rep 0 3 dg, ws, Rep 1 3 dg, comma_or_dot, times 2 dg]"

definition rx_dividende_line :: regex where
  "rx_dividende_line =
     rseq [Grp 1 date_ddmy, Star ws, Grp 2 (Rep 1 5 dg), Star ws, Grp 3 (Star any_char), ws,
           lits ''('', Grp 4 (rseq [times 2 upper, times 10 isin_char]), lits '')'', Star ws,
           Grp 5 rx_amount2, Star ws, opt (Grp 6 rx_amount2), Star ws, Grp 7 rx_amount2,
           Star ws, Grp 8 rx_amount2, Star ws, Grp 9 rx_amount2]"

definition dividende_transaction ::
  "env \<Rightarrow> meta \<Rightarrow> string option \<Rightarrow> match \<Rightarrow> error + entry" where
  "dividende_transaction ev mt compte c =
     bind_err (amount_of (chunk c 4)) (\<lambda>gross.
     bind_err (amount_or_zero (chunk c 5)) (\<lambda>w1.
     bind_err (amount_of (chunk c 6)) (\<lambda>w2.
     bind_err (amount_of (chunk c 7)) (\<lambda>net.
     bind_err (parse_date ev (Some (chunk c 0))) (\<lambda>d.
       Inr (Transaction mt d FLAG_OKAY
              (''Dividende pour '' @ chunk c 1 @ '' titres '' @ chunk c 2)
              None {chunk c 3} {}
              [simple_posting (Some ''Revenus:Dividendes'') (dec_mul_int gross (- 1)) EUR,
               simple_posting (Some ''Depenses:Impots:IR'') (dec_add w1 w2) EUR,
               simple_posting compte net EUR]))))))"

text \<open>A \<^verbatim>\<open>for\<close> loop that appends one record per match and stops at the first
  exception.\<close>

fun each_chunk :: "(match \<Rightarrow> error + entry) \<Rightarrow> match list \<Rightarrow> error + entry list" where
  "each_chunk body [] = Inr []"
| "each_chunk body (c # cs) =
     bind_err (body c) (\<lambda>e.
     bind_err (each_chunk body cs) (\<lambda>es. Inr (e # es)))"

definition dividende_block ::
  "env \<Rightarrow> importer \<Rightarrow> doc_file \<Rightarrow> string \<Rightarrow> (error + entry list) \<times> importer" where
  "dividende_block ev imp f document =
     (case file_account imp f of
        (Inl e, imp1) \<Rightarrow> (Inl e, imp1)
      | (Inr compte, imp1) \<Rightarrow>
          (each_chunk (dividende_transaction ev (meta_full f 0 document) compte)
             (re_findall rx_dividende_line (converted f)), imp1))"

subsection \<open>extract: cash statements\<close>

text \<open>\<^verbatim>\<open>(\d*/\d*/\d*).*SOLDE\s*(\d{0,3}\s\d{1,3}[,.]\d{1,3})\<close>. Every balance asks
  \<open>file_account\<close> again and appends \<^verbatim>\<open>:Cash\<close> itself.\<close>

definition rx_espece_line :: regex where
  "rx_espece_line =
     rseq [Grp 1 date_loose, Star any_char, lits ''SOLDE'', Star ws,
           Grp 2 (rseq [Rep 0 3 dg, ws, Rep 1 3 dg, comma_or_dot, Rep 1 3 dg])]"

definition espece_balance ::
  "env \<Rightarrow> importer \<Rightarrow> doc_file \<Rightarrow> meta \<Rightarrow> match \<Rightarrow> (error + entry) \<times> importer" where
  "espece_balance ev imp f mt c =
     (case parse_date ev (Some (chunk c 0)) of
        Inl e \<Rightarrow> (Inl e, imp)
      | Inr d \<Rightarrow>
          (case file_account imp f of
             (Inl e, imp1) \<Rightarrow> (Inl e, imp1)
           | (Inr None, imp1) \<Rightarrow> (Inl TypeError, imp1)
           | (Inr (Some a), imp1) \<Rightarrow>
               (bind_err (D (replace_str '','' ''.'' (replace_str '' '' [] (chunk c 1)))) (\<lambda>n.
                  Inr (Balance mt (BDate d) (a @ '':Cash'') (Amount n EUR))), imp1)))"

fun espece_loop ::
  "env \<Rightarrow> importer \<Rightarrow> doc_file \<Rightarrow> meta \<Rightarrow> match list \<Rightarrow> (error + entry list) \<times> importer" where
  "espece_loop ev imp f mt [] = (Inr [], imp)"
| "espece_loop ev imp f mt (c # cs) =
     (case espece_balance ev imp f mt c of
        (Inl e, imp1) \<Rightarrow> (Inl e, imp1)
      | (Inr b, imp1) \<Rightarrow>
          (case espece_loop ev imp1 f mt cs of
             (Inl e, imp2) \<Rightarrow> (Inl e, imp2)
           | (Inr bs, imp2) \<Rightarrow> (Inr (b # bs), imp2)))"

definition espece_block ::
  "env \<Rightarrow> importer \<Rightarrow> doc_file \<Rightarrow> string \<Rightarrow> (error + entry list) \<times> importer" where
  "espece_block ev imp f document =
     (case file_account imp f of
        (Inl e, imp1) \<Rightarrow> (Inl e, imp1)
      | (Inr a, imp1) \<Rightarrow>
          espece_loop ev imp1 f (meta_full f 0 document)
            (re_findall rx_espece_line (converted f)))"

subsection \<open>extract: trades and fund operations\<close>

text \<open>
  Both dialects collect their fields in a dictionary \<open>ope\<close>, one search after the other;
  a search that finds nothing leaves its keys out, and the later read of a missing key
  raises \<^verbatim>\<open>KeyError\<close>. A value is what \<^verbatim>\<open>match.group\<close> returned, a string or
  \<^verbatim>\<open>None\<close>. The flag \<^verbatim>\<open>ope["Achat"]\<close> is always set and is kept apart.
\<close>

type_synonym ope = "(string \<times> string option) list"

definition ope_put :: "string \<Rightarrow> string option \<Rightarrow> ope \<Rightarrow> ope" where
  "ope_put k v ope = AList.update k v ope"

definition ope_get :: "ope \<Rightarrow> string \<Rightarrow> error + string option" where
  "ope_get ope k = (case map_of ope k of None \<Rightarrow> Inl KeyError | Some v \<Rightarrow> Inr v)"

text \<open>A value that is used as a string: \<^verbatim>\<open>None\<close> raises there.\<close>

definition ope_str :: "error \<Rightarrow> ope \<Rightarrow> string \<Rightarrow> error + string" where
  "ope_str e ope k =
     bind_err (ope_get ope k) (\<lambda>v. case v of None \<Rightarrow> Inl e | Some s \<Rightarrow> Inr s)"

definition ope_amount :: "ope \<Rightarrow> string \<Rightarrow> error + decimal" where
  "ope_amount ope k = bind_err (ope_str AttributeError ope k) amount_of"

text \<open>\<^verbatim>\<open>\d{0,3}\s*\d{1,3}[,.]\d{1,3}\<close> followed by \<^verbatim>\<open>\s([A-Z]{3})\<close>: the \<open>k\<close>-th
  amount and currency of a table row, as groups \<open>2k+1\<close> and \<open>2k+2\<close>.\<close>

definition rx_amount3 :: regex where
  "rx_amount3 = rseq [Rep 0 3 dg, Star ws, Rep 1 3 dg, comma_or_dot, Rep 1 3 dg]"

definition amount_currency :: "nat \<Rightarrow> regex" where
  "amount_currency k = rseq [Grp (2 * k + 1) rx_amount3, ws, Grp (2 * k + 2) (times 3 upper)]"

definition quantite :: string where
  "quantite = ''Quantit'' @ [e_acute]"

definition execution :: string where
  "execution = ''ex'' @ [e_acute] @ ''cution''"

definition rx_bourse_montant :: regex where
  "rx_bourse_montant =
     rseq [lits ''Montant transaction'', Star ws, lits ''Montant transaction brut'', Star ws,
           lits (''Int'' @ [e_acute] @ ''r'' @ [e_circ] @ ''ts''), Star ws, lits ''total brut'',
           Star ws, lits ''Courtages'', Star ws, lits ''Montant transaction net'', Star ws,
           amount_currency 0, Star ws, amount_currency 1, Star ws, amount_currency 2, Star ws,
           amount_currency 3, Star ws, amount_currency 4, Star ws]"

definition rx_bourse_frais :: regex where
  "rx_bourse_frais =
     rseq [lits ''Commission'', Star ws, lits ''Frais divers'', Star ws,
           lits ''Montant total des frais'', Star ws,
           amount_currency 0, Star ws, amount_currency 1, Star ws, amount_currency 2, Star ws]"

definition rx_bourse_date :: regex where
  "rx_bourse_date =
     rseq [lits (''locale d'' @ [apostrophe] @ execution), Star ws, lits quantite, Star ws,
           lits ''Informations sur la valeur'', Star ws,
           lits (''Informations sur l'' @ [apostrophe] @ execution), Star ws,
           Grp 1 date_dmy, Star ws, Grp 2 (rseq [Rep 0 3 dg, ws, Rep 1 3 dg]), Star ws,
           opt (Grp 3 (Rep 0 20 anything)), Star ws]"

definition rx_cours_value :: regex where
  "rx_cours_value = rseq [Rep 0 3 dg, ws, Rep 1 3 dg, comma_or_dot, Rep 0 4 dg]"

definition rx_bourse_cours :: regex where
  "rx_bourse_cours =
     rseq [lits (''Cours ex'' @ [e_acute] @ ''cut'' @ [e_acute] @ '' :''), Star ws,
           Grp 1 rx_cours_value, ws, Grp 2 (Rep 1 3 upper)]"

definition rx_achat :: regex where
  "rx_achat = lits ''ACHAT COMPTANT''"

definition bourse_ope :: "string \<Rightarrow> ope" where
  "bourse_ope s =
     (let o1 = (case re_search rx_bourse_montant s of
                  None \<Rightarrow> []
                | Some m \<Rightarrow>
                    ope_put ''currency Total'' (group m 6) (ope_put ''Montant Total'' (group m 5) []));
          o2 = (case re_search rx_bourse_frais s of
                  None \<Rightarrow> o1
                | Some m \<Rightarrow>
                    ope_put ''currency Frais'' (group m 6) (ope_put ''Frais'' (group m 5) o1));
          o3 = (case re_search rx_isin s of
                  None \<Rightarrow> o2
                | Some m \<Rightarrow> ope_put ''ISIN'' (group m 1) o2);
          o4 = (case re_search rx_bourse_date s of
                  None \<Rightarrow> o3
                | Some m \<Rightarrow>
                    ope_put ''Designation'' (group m 3)
                      (ope_put quantite (group m 2) (ope_put ''Date'' (group m 1) o3)))
      in (case re_search rx_bourse_cours s of
            None \<Rightarrow> o4
          | Some m \<Rightarrow> ope_put ''currency Cours'' (group m 2) (ope_put ''Cours'' (group m 1) o4)))"

text \<open>The security leg and the cash leg are built by the same code in both dialects.\<close>

definition trade_posting_1 ::
  "importer \<Rightarrow> string option local \<Rightarrow> ope \<Rightarrow> bool \<Rightarrow> error + posting" where
  "trade_posting_1 imp compte ope achat =
     bind_err (local_account imp compte) (\<lambda>a.
     bind_err (ope_str TypeError ope ''ISIN'') (\<lambda>isin.
     bind_err (ope_amount ope quantite) (\<lambda>q.
     bind_err (if achat
               then bind_err (ope_amount ope ''Cours'') (\<lambda>c.
                    bind_err (ope_get ope ''currency Cours'') (\<lambda>cc. Inr (Some (Cost c cc))))
               else Inr None) (\<lambda>cst.
     bind_err (ope_amount ope ''Cours'') (\<lambda>c.
     bind_err (ope_get ope ''currency Cours'') (\<lambda>cc.
       Inr (Posting (Some (a @ '':'' @ isin))
              (Amount (dec_mul_int q (if achat then 1 else - 1)) (Some isin))
              cst
              (Some (Amount c cc)))))))))"

definition trade_posting_2 ::
  "importer \<Rightarrow> string option local \<Rightarrow> ope \<Rightarrow> bool \<Rightarrow> error + posting" where
  "trade_posting_2 imp compte ope achat =
     bind_err (local_account imp compte) (\<lambda>a.
     bind_err (ope_amount ope ''Montant Total'') (\<lambda>t.
     bind_err (ope_get ope ''currency Total'') (\<lambda>ct.
       Inr (simple_posting (Some (a @ '':Cash'')) (dec_mul_int t (if achat then - 1 else 1)) ct))))"

definition bourse_posting_3 :: "ope \<Rightarrow> error + posting" where
  "bourse_posting_3 ope =
     bind_err (ope_amount ope ''Frais'') (\<lambda>fr.
     bind_err (ope_get ope ''currency Frais'') (\<lambda>cf.
       Inr (simple_posting (Some ''Depenses:Banque:Frais'') fr cf)))"

definition trade_transaction :: "env \<Rightarrow> meta \<Rightarrow> ope \<Rightarrow> posting list \<Rightarrow> error + entry" where
  "trade_transaction ev mt ope ps =
     bind_err (ope_get ope ''Date'') (\<lambda>ds.
     bind_err (parse_date ev ds) (\<lambda>d.
     bind_err (ope_get ope ''Designation'') (\<lambda>des.
     bind_err (ope_get ope ''ISIN'') (\<lambda>isin.
       Inr (Transaction mt d FLAG_OKAY
              (case des of None \<Rightarrow> ''inconnu'' | Some x \<Rightarrow> str_or x ''inconnu'')
              isin {} {} ps)))))"

text \<open>With the debug flag set, the printed keys are read, and a missing one raises,
  before the postings are built.\<close>

definition debug_read :: "importer \<Rightarrow> ope \<Rightarrow> string list \<Rightarrow> error + unit" where
  "debug_read imp ope ks =
     (if debug imp
      then foldl (\<lambda>r k. bind_err r (\<lambda>_. bind_err (ope_get ope k) (\<lambda>_. Inr ()))) (Inr ()) ks
      else Inr ())"

definition bourse_block :: "env \<Rightarrow> importer \<Rightarrow> doc_file \<Rightarrow> string \<Rightarrow> error + entry list" where
  "bourse_block ev imp f document =
     (let s = converted f;
          compte = local_of (re_search rx_acc_bourse s) (\<lambda>m. group m 1);
          ope = bourse_ope s;
          achat = found rx_achat s
      in bind_err (debug_print imp compte) (\<lambda>_.
         bind_err (debug_read imp ope [''Montant Total'', ''currency Total'', ''Date'']) (\<lambda>_.
         bind_err (trade_posting_1 imp compte ope achat) (\<lambda>p1.
         bind_err (trade_posting_2 imp compte ope achat) (\<lambda>p2.
         bind_err (bourse_posting_3 ope) (\<lambda>p3.
         bind_err (trade_transaction ev (meta_full f 0 document) ope [p1, p2, p3]) (\<lambda>t.
           Inr [t])))))))"

text \<open>The fund dialect: its own table (with \<^verbatim>\<open>Frais H.T.\<close> and \<^verbatim>\<open>T.V.A.\<close>, whose
  points match any character), a date pattern without a heading, and
  \<^verbatim>\<open>SOUSCRIPTION\<close> as the purchase marker. The fee leg adds the entry fees.\<close>

definition rx_opcvm_montant :: regex where
  "rx_opcvm_montant =
     rseq [lits ''Montant brut'', Star ws,
           lits (''Droits d'' @ [apostrophe] @ ''entr'' @ [e_acute] @ ''e''), Star ws,
           lits ''Frais H'', any_char, lits ''T'', any_char, Star ws,
           lits ''T'', any_char, lits ''V'', any_char, lits ''A'', any_char, Star ws,
           lits (''Montant net au d'' @ [e_acute] @ ''bit de votre compte''), Star ws,
           amount_currency 0, Star ws, amount_currency 1, Star ws, amount_currency 2, Star ws,
           amount_currency 3, ws]"

definition rx_opcvm_date :: regex where
  "rx_opcvm_date =
     rseq [Grp 1 date_dmy, Star ws,
           Grp 2 (rseq [Rep 0 3 dg, ws, Rep 1 3 dg, opt comma_or_dot, Rep 0 4 dg]), Star ws,
           opt (Grp 3 (Rep 0 20 anything)), Star ws]"

definition rx_opcvm_cours :: regex where
  "rx_opcvm_cours =
     rseq [lits ''Valeur liquidative :'', Star ws, Grp 1 rx_cours_value, ws,
           Grp 2 (Rep 1 3 upper)]"

definition rx_souscription :: regex where
  "rx_souscription = lits ''SOUSCRIPTION''"

definition opcvm_ope :: "string \<Rightarrow> ope" where
  "opcvm_ope s =
     (let o1 = (case re_search rx_opcvm_montant s of
                  None \<Rightarrow> []
                | Some m \<Rightarrow>
                    ope_put ''currency Droits'' (group m 4) (ope_put ''Droits'' (group m 3)
                      (ope_put ''currency Frais'' (group m 6) (ope_put ''Frais'' (group m 5)
                        (ope_put ''currency Total'' (group m 8)
                          (ope_put ''Montant Total'' (group m 7) []))))));
          o2 = (case re_search rx_isin s of
                  None \<Rightarrow> o1
                | Some m \<Rightarrow> ope_put ''ISIN'' (group m 1) o1);
          o3 = (case re_search rx_opcvm_date s of
                  None \<Rightarrow> o2
                | Some m \<Rightarrow>
                    ope_put ''Designation'' (group m 3)
                      (ope_put quantite (group m 2) (ope_put ''Date'' (group m 1) o2)))
      in (case re_search rx_opcvm_cours s of
            None \<Rightarrow> o3
          | Some m \<Rightarrow> ope_put ''currency Cours'' (group m 2) (ope_put ''Cours'' (group m 1) o3)))"

definition opcvm_posting_3 :: "ope \<Rightarrow> error + posting" where
  "opcvm_posting_3 ope =
     bind_err (ope_amount ope ''Frais'') (\<lambda>fr.
     bind_err (ope_amount ope ''Droits'') (\<lambda>dr.
     bind_err (ope_get ope ''currency Frais'') (\<lambda>cf.
       Inr (simple_posting (Some ''Depenses:Banque:Frais'') (dec_add fr dr) cf))))"

definition opcvm_block :: "env \<Rightarrow> importer \<Rightarrow> doc_file \<Rightarrow> string \<Rightarrow> error + entry list" where
  "opcvm_block ev imp f document =
     (let s = converted f;
          compte = local_of (re_search rx_acc_bourse s) (\<lambda>m. group m 1);
          ope = opcvm_ope s;
          achat = found rx_souscription s
      in bind_err (debug_print imp compte) (\<lambda>_.
         bind_err (debug_read imp ope [''Montant Total'', ''currency Total'', ''Cours'']) (\<lambda>_.
         bind_err (trade_posting_1 imp compte ope achat) (\<lambda>p1.
         bind_err (trade_posting_2 imp compte ope achat) (\<lambda>p2.
         bind_err (opcvm_posting_3 ope) (\<lambda>p3.
         bind_err (trade_transaction ev (meta_full f 0 document) ope [p1, p2, p3]) (\<lambda>t.
           Inr [t])))))))"

subsection \<open>extract: checking accounts\<close>

definition newline :: char where
  "newline = CHR 0x0A"

text \<open>\<^verbatim>\<open>(?:\d{1,3}\.)?\d{1,3},\d{2}\<close>, and the same with a second optional group of
  thousands.\<close>

definition rx_thousands :: regex where
  "rx_thousands = opt (rseq [Rep 1 3 dg, lits ''.''])"

definition rx_grouped :: regex where
  "rx_grouped = rseq [rx_thousands, Rep 1 3 dg, lits '','', times 2 dg]"

definition rx_grouped2 :: regex where
  "rx_grouped2 = rseq [rx_thousands, rx_thousands, Rep 1 3 dg, lits '','', times 2 dg]"

text \<open>\<^verbatim>\<open>\s*\d{11}\<close>;
  \<^verbatim>\<open>SOLDE\s(?:EN\sEUR\s+)?AU\s:(\s+)(\d{1,2}\/\d{2}\/\d{4})(\s+)((?:\d{1,3}\.)?\d{1,3},\d{2})\<close>;
  the transaction line
  \<^verbatim>\<open>\d{1,2}\/\d{2}\/\d{4}\s(.*)\s(\d{1,2}\/\d{2}\/\d{4})\s(\s*)\s((?:\d{1,3}\.)?\d{1,3},\d{2})(?:(?:\n.\s{8,20})(.+?))?\n\<close>;
  \<^verbatim>\<open>Nouveau solde en EUR :(\s+)((?:\d{1,3}\.)?(?:\d{1,3}\.)?\d{1,3},\d{2})\<close>;
  \<^verbatim>\<open>(\d{1,2}\/\d{2}\/\d{4}).*40618\<close>.\<close>

definition rx_compte_numero :: regex where
  "rx_compte_numero = rseq [Star ws, times 11 dg]"

definition rx_compte_solde :: regex where
  "rx_compte_solde =
     rseq [lits ''SOLDE'', ws, opt (rseq [lits ''EN'', ws, lits ''EUR'', rplus ws]),
           lits ''AU'', ws, lits '':'', Grp 1 (rplus ws), Grp 2 date_dmy, Grp 3 (rplus ws),
           Grp 4 rx_grouped]"

definition rx_compte_line :: regex where
  "rx_compte_line =
     rseq [date_dmy, ws, Grp 1 (Star any_char), ws, Grp 2 date_dmy, ws, Grp 3 (Star ws), ws,
           Grp 4 rx_grouped,
           opt (rseq [lits [newline], any_char, Rep 8 20 ws, Grp 5 (lazy_plus any_char)]),
           lits [newline]]"

definition rx_nouveau_solde :: regex where
  "rx_nouveau_solde =
     rseq [lits ''Nouveau solde en EUR :'', Grp 1 (rplus ws), Grp 2 rx_grouped2]"

definition rx_date_40618 :: regex where
  "rx_date_40618 = rseq [Grp 1 date_dmy, Star any_char, lits ''40618'']"

text \<open>\<^verbatim>\<open>\s+\<close>, for \<^verbatim>\<open>re.sub(r"\s+", " ", s)\<close>.\<close>

definition squeeze :: "string \<Rightarrow> string" where
  "squeeze s = re_sub (rplus ws) '' '' s"

text \<open>A group used as a string (\<^verbatim>\<open>len\<close>, \<^verbatim>\<open>replace\<close>).\<close>

definition group_str :: "match \<Rightarrow> nat \<Rightarrow> error + string" where
  "group_str m i = (case group m i of None \<Rightarrow> Inl TypeError | Some s \<Rightarrow> Inr s)"

text \<open>
  The sign of a balance: \<^verbatim>\<open>if longueur < 84: balance = "-" + balance\<close>. The sign of a
  transaction: \<^verbatim>\<open>if longueur > 148\<close> it is a credit, else the amount gets the minus
  sign.
\<close>

definition balance_sign :: "nat \<Rightarrow> string \<Rightarrow> string" where
  "balance_sign longueur balance = (if longueur < 84 then ''-'' @ balance else balance)"

definition montant_sign :: "nat \<Rightarrow> string \<Rightarrow> string" where
  "montant_sign longueur montant = (if longueur > 148 then montant else ''-'' @ montant)"

text \<open>The opening balance: \<open>datebalance\<close> and \<open>balance\<close> start as empty strings and are
  set when the pattern matches; the balance record is appended in both cases.\<close>

definition compte_solde :: "env \<Rightarrow> string \<Rightarrow> error + balance_date \<times> string" where
  "compte_solde ev s =
     (case re_search rx_compte_solde s of
        None \<Rightarrow> Inr (BEmpty, [])
      | Some m \<Rightarrow>
          bind_err (parse_date ev (group m 2)) (\<lambda>d.
          bind_err (next_day d) (\<lambda>d1.
          bind_err (group_str m 1) (\<lambda>g1.
          bind_err (group_str m 3) (\<lambda>g3.
          bind_err (group_str m 2) (\<lambda>g2.
          bind_err (group_str m 4) (\<lambda>g4.
            Inr (BDate d1,
                 balance_sign (length g1 + length g3 + length g2 + length g4)
                   (normalize_grouped g4)))))))))"

definition compte_opening ::
  "env \<Rightarrow> importer \<Rightarrow> doc_file \<Rightarrow> string \<Rightarrow> string option local \<Rightarrow> error + entry list" where
  "compte_opening ev imp f document compte =
     bind_err (compte_solde ev (converted f)) (\<lambda>(datebalance, balance).
     bind_err (local_account imp compte) (\<lambda>a.
     bind_err (D balance) (\<lambda>n.
       Inr [Balance (meta_full f 0 document) datebalance a (Amount n EUR)])))"

definition compte_transaction ::
  "env \<Rightarrow> importer \<Rightarrow> doc_file \<Rightarrow> string \<Rightarrow> string option local \<Rightarrow> nat \<Rightarrow> match
   \<Rightarrow> error + entry list" where
  "compte_transaction ev imp f document compte index c =
     (let longueur = length (chunk c 0) + length (chunk c 1) + length (chunk c 2)
                     + length (chunk c 3);
          montant = montant_sign longueur (normalize_grouped (chunk c 3))
      in bind_err (local_account imp compte) (\<lambda>a.
         bind_err (to_Decimal montant) (\<lambda>n.
         bind_err (parse_date ev (Some (chunk c 1))) (\<lambda>d.
           Inr [Transaction (meta_full f index document) d FLAG_OKAY
                  (str_or (squeeze (chunk c 0)) ''inconnu'')
                  (Some (squeeze (chunk c 4))) {} {}
                  [simple_posting (Some a) n EUR]]))))"

text \<open>A \<^verbatim>\<open>for\<close> loop with \<^verbatim>\<open>index += 1\<close> at the head of its body; the body appends
  its records to \<open>entries\<close>.\<close>

fun each_indexed ::
  "(nat \<Rightarrow> match \<Rightarrow> error + entry list) \<Rightarrow> nat \<Rightarrow> match list \<Rightarrow> error + entry list" where
  "each_indexed body index [] = Inr []"
| "each_indexed body index (c # cs) =
     bind_err (body (index + 1) c) (\<lambda>es.
     bind_err (each_indexed body (index + 1) cs) (\<lambda>rest. Inr (es @ rest)))"

text \<open>The closing balance is appended only when both its pattern and the date pattern
  match.\<close>

definition compte_closing ::
  "env \<Rightarrow> importer \<Rightarrow> doc_file \<Rightarrow> string \<Rightarrow> string option local \<Rightarrow> error + entry list" where
  "compte_closing ev imp f document compte =
     (case re_search rx_nouveau_solde (converted f) of
        None \<Rightarrow> Inr []
      | Some m \<Rightarrow>
          bind_err (group_str m 2) (\<lambda>g2.
          bind_err (group_str m 1) (\<lambda>g1.
            (case re_search rx_date_40618 (converted f) of
               None \<Rightarrow> Inr []
             | Some md \<Rightarrow>
                 bind_err (parse_date ev (group md 1)) (\<lambda>d.
                 bind_err (local_account imp compte) (\<lambda>a.
                 bind_err (D (balance_sign (length g1) (normalize_grouped g2))) (\<lambda>n.
                   Inr [Balance (meta_full f 0 document) (BDate d) a (Amount n EUR)])))))))"

definition compte_block :: "env \<Rightarrow> importer \<Rightarrow> doc_file \<Rightarrow> string \<Rightarrow> error + entry list" where
  "compte_block ev imp f document =
     (let compte = local_of (re_search rx_compte_numero (converted f))
                     (\<lambda>m. Some (split_last (CHR '' '') (whole m)))
      in bind_err (debug_print imp compte) (\<lambda>_.
         bind_err (compte_opening ev imp f document compte) (\<lambda>opening.
         bind_err (each_indexed (compte_transaction ev imp f document compte) 0
                     (re_findall rx_compte_line (converted f))) (\<lambda>lines.
         bind_err (compte_closing ev imp f document compte) (\<lambda>closing.
           Inr (opening @ lines @ closing))))))"

subsection \<open>extract: amortization schedules\<close>

text \<open>\<^verbatim>\<open>(\d*/\d*/\d*)\<close> and eight times \<^verbatim>\<open>\s+(\d+.\d{2})\<close>, whose point matches any
  character. The metadata of these records gets the origin tag only.\<close>

definition rx_column :: "nat \<Rightarrow> regex" where
  "rx_column k = rseq [rplus ws, Grp k (rseq [rplus dg, any_char, times 2 dg])]"

definition rx_amortissement_line :: regex where
  "rx_amortissement_line =
     rseq [Grp 1 date_loose, rx_column 2, rx_column 3, rx_column 4, rx_column 5, rx_column 6,
           rx_column 7, rx_column 8, rx_column 9]"

definition comma_to_dot :: "string \<Rightarrow> string" where
  "comma_to_dot s = replace_str '','' ''.'' s"

definition amortissement_records ::
  "env \<Rightarrow> importer \<Rightarrow> doc_file \<Rightarrow> string option local \<Rightarrow> nat \<Rightarrow> match
   \<Rightarrow> error + entry list" where
  "amortissement_records ev imp f compte index c =
     bind_err (parse_date ev (Some (chunk c 0))) (\<lambda>d.
     bind_err (to_Decimal (''-'' @ comma_to_dot (chunk c 1))) (\<lambda>prelevement.
     bind_err (to_Decimal (comma_to_dot (chunk c 2))) (\<lambda>amortissement.
     bind_err (to_Decimal (comma_to_dot (chunk c 3))) (\<lambda>interet.
     bind_err (to_Decimal (comma_to_dot (chunk c 4))) (\<lambda>assurance.
     bind_err (to_Decimal (''-'' @ comma_to_dot (chunk c 7))) (\<lambda>crd.
     bind_err (local_account imp compte) (\<lambda>a.
     bind_err (next_day d) (\<lambda>d1.
       Inr [Transaction (meta_source f index) d FLAG_OKAY ''ECH PRET:8028000060686223''
              (Some []) {} {}
              [simple_posting (Some ''Actif:Boursorama:CCJoint'') prelevement EUR,
               simple_posting (Some a) amortissement EUR,
               simple_posting (Some ''Depenses:Banque:Interet'') interet EUR,
               simple_posting (Some ''Depenses:Banque:AssuEmprunt'') assurance EUR],
            Balance (meta_source f index) (BDate d1) a (Amount crd EUR)]))))))))"

definition amortissement_block :: "env \<Rightarrow> importer \<Rightarrow> doc_file \<Rightarrow> error + entry list" where
  "amortissement_block ev imp f =
     (let compte = local_of (re_search rx_acc_amortissement (converted f)) (\<lambda>m. group m 1)
      in bind_err (debug_print imp compte) (\<lambda>_.
           each_indexed (amortissement_records ev imp f compte) 0
             (re_findall rx_amortissement_line (converted f))))"

subsection \<open>extract: card statements\<close>

text \<open>\<^verbatim>\<open>(\d{1,2}\/\d{2}\/\d{4})\s*CARTE\s(.*)\s((?:\d{1,3}\.)?\d{1,3},\d{2})\<close> and
  \<^verbatim>\<open>A VOTRE DEBIT LE\s(\d{1,2}\/\d{2}\/\d{4})\s*((?:\d{1,3}\.)?(?:\d{1,3}\.)?\d{1,3},\d{2})\<close>.
  Every amount gets the minus sign.\<close>

definition rx_cb_line :: regex where
  "rx_cb_line =
     rseq [Grp 1 date_dmy, Star ws, lits ''CARTE'', ws, Grp 2 (Star any_char), ws,
           Grp 3 rx_grouped]"

definition rx_cb_debit :: regex where
  "rx_cb_debit =
     rseq [lits ''A VOTRE DEBIT LE'', ws, Grp 1 date_dmy, Star ws, Grp 2 rx_grouped2]"

definition cb_transaction ::
  "env \<Rightarrow> importer \<Rightarrow> doc_file \<Rightarrow> string \<Rightarrow> string option local \<Rightarrow> nat \<Rightarrow> match
   \<Rightarrow> error + entry list" where
  "cb_transaction ev imp f document compte index c =
     bind_err (local_account imp compte) (\<lambda>a.
     bind_err (to_Decimal (''-'' @ normalize_grouped (chunk c 2))) (\<lambda>n.
     bind_err (parse_date ev (Some (chunk c 0))) (\<lambda>d.
       Inr [Transaction (meta_full f index document) d FLAG_OKAY
              (str_or (squeeze (chunk c 1)) ''inconnu'') None {} {}
              [simple_posting (Some a) n EUR]])))"

definition cb_closing ::
  "env \<Rightarrow> importer \<Rightarrow> doc_file \<Rightarrow> string \<Rightarrow> string option local \<Rightarrow> error + entry list" where
  "cb_closing ev imp f document compte =
     (case re_search rx_cb_debit (converted f) of
        None \<Rightarrow> Inr []
      | Some m \<Rightarrow>
          bind_err (group_str m 2) (\<lambda>g2.
            (case re_search rx_date_40618 (converted f) of
               None \<Rightarrow> Inr []
             | Some md \<Rightarrow>
                 bind_err (parse_date ev (group md 1)) (\<lambda>d.
                 bind_err (local_account imp compte) (\<lambda>a.
                 bind_err (D (''-'' @ normalize_grouped g2)) (\<lambda>n.
                   Inr [Balance (meta_full f 0 document) (BDate d) a (Amount n EUR)]))))))"

definition cb_block :: "env \<Rightarrow> importer \<Rightarrow> doc_file \<Rightarrow> string \<Rightarrow> error + entry list" where
  "cb_block ev imp f document =
     (let compte = local_of (re_search rx_acc_cb (converted f)) (\<lambda>m. group m 1)
      in bind_err (debug_print imp compte) (\<lambda>_.
         bind_err (each_indexed (cb_transaction ev imp f document compte) 0
                     (re_findall rx_cb_line (converted f))) (\<lambda>lines.
         bind_err (cb_closing ev imp f document compte) (\<lambda>closing.
           Inr (lines @ closing)))))"

subsection \<open>extract\<close>

text \<open>
  \<open>extract\<close> (here \<open>extract_entries\<close>) first builds the document label from
  \<open>file_date\<close> and \<open>file_name\<close>; the latter calls \<open>identify\<close>. Then come the seven
  statements \<^verbatim>\<open>if self.type == \<dots>:\<close>, one after the other, each appending to
  \<open>entries\<close>. The state of the importer is returned with the result, whether the call
  ends with the list or with an exception.
\<close>

type_synonym run = "(error + entry list) \<times> importer"

definition when_type :: "string \<Rightarrow> (importer \<Rightarrow> run) \<Rightarrow> run \<Rightarrow> run" where
  "when_type t block st =
     (case st of
        (Inl e, imp) \<Rightarrow> (Inl e, imp)
      | (Inr entries, imp) \<Rightarrow>
          (case type imp of
             None \<Rightarrow> (Inl AttributeError, imp)
           | Some t' \<Rightarrow>
               if t' = t then
                 (case block imp of
                    (Inl e, imp') \<Rightarrow> (Inl e, imp')
                  | (Inr new, imp') \<Rightarrow> (Inr (entries @ new), imp'))
               else (Inr entries, imp)))"

definition extract_entries :: "env \<Rightarrow> importer \<Rightarrow> doc_file \<Rightarrow> run" where
  "extract_entries ev imp f =
     (case file_date ev f of
        Inl e \<Rightarrow> (Inl e, imp)
      | Inr d \<Rightarrow>
          (case file_name imp f of
             (Inl e, imp1) \<Rightarrow> (Inl e, imp1)
           | (Inr nm, imp1) \<Rightarrow>
               (let document = str_date_opt d @ '' '' @ nm
                in when_type ''CB'' (\<lambda>i. (cb_block ev i f document, i))
                  (when_type ''Amortissement'' (\<lambda>i. (amortissement_block ev i f, i))
                  (when_type ''Compte'' (\<lambda>i. (compte_block ev i f document, i))
                  (when_type ''OPCVM'' (\<lambda>i. (opcvm_block ev i f document, i))
                  (when_type ''Bourse'' (\<lambda>i. (bourse_block ev i f document, i))
                  (when_type ''EspeceBourse'' (\<lambda>i. espece_block ev i f document)
                  (when_type ''DividendeBourse'' (\<lambda>i. dividende_block ev i f document)
                     (Inr [], imp1))))))))))"

text \<open>A reader of dates of the strict form \<^verbatim>\<open>D/M/YYYY\<close>, day first, to stand for the
  date library in the examples: one or two digits, two digits, four digits, and a day
  and a month that exist.\<close>

definition dmy_reader :: "string \<Rightarrow> date option" where
  "dmy_reader s =
     (case split_on (CHR ''/'') s of
        [d, m, y] \<Rightarrow>
          if list_all is_digit (d @ m @ y) \<and> length d \<in> {1, 2} \<and> length m = 2 \<and> length y = 4
             \<and> 1 \<le> nat_of_digits m \<and> nat_of_digits m \<le> 12 \<and> 1 \<le> nat_of_digits y
             \<and> 1 \<le> nat_of_digits d
             \<and> nat_of_digits d \<le> days_in_month (nat_of_digits y) (nat_of_digits m)
          then Some (Date (nat_of_digits y) (nat_of_digits m) (nat_of_digits d))
          else None
      | _ \<Rightarrow> None)"

definition example_env :: env where
  "example_env = \<lparr>parse_datetime = dmy_reader\<rparr>"

section \<open>The classification table and example documents\<close>

text \<open>The classification as the specification words it: an ordered table of markers and
  tags, and the tag of the first marker that is found.\<close>

definition dialect_table :: "(regex \<times> string) list" where
  "dialect_table =
     [(rx_dividende, ''DividendeBourse''), (rx_espece, ''EspeceBourse''),
      (rx_bourse, ''Bourse''), (rx_opcvm, ''OPCVM''), (rx_cb, ''CB''),
      (rx_compte, ''Compte''), (rx_amortissement, ''Amortissement'')]"

definition first_match :: "(regex \<times> string) list \<Rightarrow> string \<Rightarrow> string option" where
  "first_match tbl s = map_option snd (find (\<lambda>(r, t). found r s) tbl)"

text \<open>Concrete inputs for the examples: a PDF file with a given text, an account
  directory, and the importer that the constructor builds from it.\<close>

definition pdf_file :: "string \<Rightarrow> doc_file" where
  "pdf_file s = \<lparr>mimetype = ''application/pdf'', name = ''releve.pdf'', converted = s\<rparr>"

definition example_accounts :: "(string \<times> string) list" where
  "example_accounts =
     [(''4979********1234'', ''Passif:CB''), (''12345678901'', ''Actif:Bourso''),
      (''00040-12345678901'', ''Passif:Pret'')]"

definition fresh_importer :: importer where
  "fresh_importer = \<lparr>accountList = example_accounts, debug = True, type = None\<rparr>"

text \<open>A text with a dividend marker and a bank marker.\<close>

definition both_doc :: string where
  "both_doc = ''BOURSORAMA BANQUE - COUPONS REMBOURSEMENTS : 2023''"

text \<open>A card statement, and a text with a card line but with none of the seven markers.\<close>

definition cb_doc :: string where
  "cb_doc = ''Relev'' @ [e_acute] @ '' de Carte 4979********1234''"

definition unmarked_doc :: string where
  "unmarked_doc = ''4979********1234 05/03/2023 CARTE SUPERMARCHE 45,30''"

text \<open>A cash statement of a brokerage account.\<close>

definition espece_doc :: string where
  "espece_doc = ''RELEVE COMPTE ESPECES : 40618 00040 12345678901 03/04/2023 SOLDE 1 012,50''"

text \<open>An amortization schedule with one line of eight amounts.\<close>

definition amortissement_doc :: string where
  "amortissement_doc =
     ''tableau d'' @ [apostrophe] @ ''amortissement N'' @ [degree_sign] @ '' du cr''
     @ [e_acute] @ ''dit : 00040-12345678901'' @ [newline]
     @ ''05/02/2023 500,00 400,00 90,00 10,00 0,00 0,00 99600,00 0,00''"

text \<open>A checking account statement with one transaction line and no line for the
  opening balance.\<close>

definition compte_doc :: string where
  "compte_doc =
     ''BOURSORAMA BANQUE 12345678901'' @ [newline]
     @ ''01/02/2023 VIR SEPA 01/02/2023      12,50'' @ [newline]"


text \<open>A checking account statement: an opening balance whose four spans have 34, 10, 34
  and 5 characters (83 in all), a transaction line whose four spans have 8, 10, 125 and 5
  characters (148 in all), and a closing balance after a gap of 84 characters.\<close>

definition spaces :: "nat \<Rightarrow> string" where
  "spaces n = replicate n (CHR '' '')"

definition threshold_doc :: string where
  "threshold_doc =
     ''BOURSORAMA BANQUE 12345678901'' @ [newline]
     @ ''SOLDE AU :'' @ spaces 34 @ ''31/01/2023'' @ spaces 34 @ ''99,00'' @ [newline]
     @ ''01/02/2023 VIREMENT 01/02/2023 '' @ spaces 125 @ '' 12,50'' @ [newline]
     @ ''Nouveau solde en EUR :'' @ spaces 84 @ ''86,50'' @ [newline]
     @ ''28/02/2023 code 40618''"

text \<open>The same opening balance with one more space before the amount (84 in all).\<close>

definition solde_84_line :: string where
  "solde_84_line = ''SOLDE AU :'' @ spaces 34 @ ''31/01/2023'' @ spaces 35 @ ''99,00''"

section \<open>The constructor\<close>

text \<open>
  Claim C10. For every account dictionary and every value of the debug argument, the
  constructor succeeds and the instance it builds has its debug attribute equal to True,
  keeps the dictionary, and has no \<open>type\<close> attribute yet; the debug argument has no
  effect on the instance.
\<close>

theorem init_debug_always_true:
  "init (PyDict al) dbg = Inr \<lparr>accountList = al, debug = True, type = None\<rparr>
   \<and> (\<exists>imp. init (PyDict al) dbg = Inr imp \<and> debug imp = True \<and> accountList imp = al)
   \<and> init (PyDict al) dbg = init (PyDict al) (\<not> dbg)"
  by (simp add: init_def)

section \<open>Evaluation\<close>

text \<open>The unfoldings that evaluate a decimal literal and a date of the examples.\<close>

lemmas decimal_eval =
  Decimal_of_str_def strip_def is_space_def is_digit_def parse_exponent_def
  nat_of_digits_def digit_val_def to_Decimal_def D_def dec_zero_def

lemmas date_eval =
  dmy_reader_def example_env_def parse_date_def is_digit_def nat_of_digits_def
  digit_val_def days_in_month_def leap_year_def

lemmas importer_eval =
  pdf_file_def fresh_importer_def example_accounts_def identify_def local_of_def
  debug_print_def local_account_def account_of_def bind_err_def group_def chunk_def
  str_or_def str_date_opt_def simple_posting_def EUR_def FLAG_OKAY_def Let_def

lemma fresh_importer_init: "init (PyDict example_accounts) False = Inr fresh_importer"
  by (simp add: init_def fresh_importer_def)

section \<open>Classification\<close>

lemma markers_need_text:
  "\<not> found rx_dividende []" "\<not> found rx_espece []" "\<not> found rx_bourse []"
  "\<not> found rx_opcvm []" "\<not> found rx_cb []" "\<not> found rx_compte []"
  "\<not> found rx_amortissement []"
  by code_simp+

lemma classify_first_match: "classify s = first_match dialect_table s"
  by (cases "s = []")
     (simp_all add: classify_def first_match_def dialect_table_def markers_need_text)

lemma identify_twice: "identify (snd (identify imp f)) f = identify imp f"
  by (simp add: identify_def split: option.splits)

text \<open>
  Claim C5. The classification is the first match in the fixed table of markers, in the
  order dividend, cash account, trade, fund operation, card statement, bank identity,
  amortization. Hence a text with a dividend marker and a bank marker gets the dividend
  tag; and identifying the same file a second time returns the same value and leaves the
  same tag.
\<close>

theorem classify_first_match_wins:
  "classify s = first_match dialect_table s
   \<and> (found rx_dividende s \<and> found rx_compte s \<longrightarrow> classify s = Some ''DividendeBourse'')
   \<and> identify (snd (identify imp f)) f = identify imp f
   \<and> type (snd (identify (snd (identify imp f)) f)) = type (snd (identify imp f))"
proof -
  have "classify s = Some ''DividendeBourse''" if "found rx_dividende s"
  proof -
    from that have "s \<noteq> []" using markers_need_text(1) by auto
    with that show ?thesis by (simp add: classify_def)
  qed
  then show ?thesis by (simp add: classify_first_match identify_twice)
qed

lemma both_found: "found rx_dividende both_doc" "found rx_compte both_doc"
  by code_simp+

theorem classify_first_match_wins_witness:
  "found rx_dividende both_doc \<and> found rx_compte both_doc
   \<and> classify both_doc = Some ''DividendeBourse''
   \<and> type (snd (identify (snd (identify fresh_importer (pdf_file both_doc)))
          (pdf_file both_doc))) = Some ''DividendeBourse''"
proof -
  note inst = classify_first_match_wins [of both_doc fresh_importer "pdf_file both_doc"]
  from inst both_found have c: "classify both_doc = Some ''DividendeBourse''" by blast
  then show ?thesis using both_found by (simp add: identify_def pdf_file_def)
qed

section \<open>Documents without a marker\<close>

lemma unmarked_searches:
  "classify unmarked_doc = None"
  "re_search rx_file_date unmarked_doc = None"
  "re_search rx_acc_cb unmarked_doc
     = Some (Match ''4979********1234'' [(2, ''4979''), (1, ''4979********1234'')]
               '' 05/03/2023 CARTE SUPERMARCHE 45,30'')"
  "re_findall rx_cb_line unmarked_doc
     = [Match ''05/03/2023 CARTE SUPERMARCHE 45,30''
          [(1, ''05/03/2023''), (2, ''SUPERMARCHE''), (3, ''45,30'')] []]"
  "re_search rx_cb_debit unmarked_doc = None"
  "squeeze ''SUPERMARCHE'' = ''SUPERMARCHE''"
  by code_simp+

lemma cb_doc_classified: "classify cb_doc = Some ''CB''"
  by code_simp

lemma amount_45_30:
  "to_Decimal (CHR ''-'' # normalize_grouped ''45,30'') = Inr (Decimal True 4530 (- 2))"
  by (simp add: normalize_grouped_def decimal_eval)

lemma date_05_03_2023:
  "parse_date example_env (Some ''05/03/2023'') = Inr (Date 2023 3 5)"
  by (simp add: date_eval)

text \<open>
  Claim C3, as stated, fails: an importer that has classified a card statement keeps the
  tag \<^verbatim>\<open>CB\<close>, and \<open>extract\<close> on a later text without any marker runs the card
  patterns and returns a transaction.
\<close>

theorem unmarked_after_card_counterexample:
  "classify unmarked_doc = None
   \<and> fst (extract_entries example_env (snd (identify fresh_importer (pdf_file cb_doc)))
           (pdf_file unmarked_doc))
     = Inr [Transaction
              (meta_full (pdf_file unmarked_doc) 1 (''None Relev'' @ [e_acute] @ '' CB.pdf''))
              (Date 2023 3 5) ''*'' ''SUPERMARCHE'' None {} {}
              [Posting (Some ''Passif:CB'') (Amount (Decimal True 4530 (- 2)) (Some ''EUR''))
                 None None]]"
  by (simp add: unmarked_searches cb_doc_classified amount_45_30 date_05_03_2023
        extract_entries_def file_date_def file_name_def when_type_def cb_block_def
        cb_transaction_def cb_closing_def importer_eval)

text \<open>
  Claim C3, amended. For a text in which none of the seven markers matches, \<open>identify\<close>
  assigns no tag: it returns \<^verbatim>\<open>None\<close> (\<^verbatim>\<open>False\<close> for a file that is not a PDF) and
  leaves the importer as it was, the tag of an earlier document included. On an importer
  that has classified no document, \<open>extract\<close> then raises and returns no record.
\<close>

theorem unmarked_keeps_stored_type:
  "classify (converted f) = None \<longrightarrow>
     identify imp f = (if mimetype f = ''application/pdf'' then PyNone else PyFalse, imp)
     \<and> (type imp = None \<longrightarrow> (\<exists>e. extract_entries ev imp f = (Inl e, imp)))"
proof (intro impI conjI)
  assume c: "classify (converted f) = None"
  then show i: "identify imp f = (if mimetype f = ''application/pdf'' then PyNone else PyFalse, imp)"
    by (simp add: identify_def)
  assume t: "type imp = None"
  from i t have n: "file_name imp f = (Inl AttributeError, imp)"
    by (simp add: file_name_def)
  show "\<exists>e. extract_entries ev imp f = (Inl e, imp)"
  proof (cases "file_date ev f")
    case (Inl e)
    then show ?thesis by (simp add: extract_entries_def)
  next
    case (Inr d)
    with n show ?thesis by (simp add: extract_entries_def)
  qed
qed

theorem unmarked_keeps_stored_type_witness:
  "classify (converted (pdf_file unmarked_doc)) = None
   \<and> identify fresh_importer (pdf_file unmarked_doc) = (PyNone, fresh_importer)
   \<and> type fresh_importer = None
   \<and> extract_entries example_env fresh_importer (pdf_file unmarked_doc)
       = (Inl AttributeError, fresh_importer)"
proof -
  have c: "classify (converted (pdf_file unmarked_doc)) = None"
    by (simp add: pdf_file_def unmarked_searches)
  have t: "type fresh_importer = None"
    by (simp add: fresh_importer_def)
  from unmarked_keeps_stored_type [of "pdf_file unmarked_doc" fresh_importer example_env] c
  have i: "identify fresh_importer (pdf_file unmarked_doc) = (PyNone, fresh_importer)"
    by (simp add: pdf_file_def)
  from i t have "extract_entries example_env fresh_importer (pdf_file unmarked_doc)
      = (Inl AttributeError, fresh_importer)"
    by (simp add: extract_entries_def file_date_def file_name_def pdf_file_def unmarked_searches)
  with c i t show ?thesis by simp
qed

section \<open>The account of a document\<close>

lemma espece_searches:
  "classify espece_doc = Some ''EspeceBourse''"
  "re_search rx_acc_espece espece_doc
     = Some (Match ''40618 00040 12345678901 '' [(1, ''12345678901'')]
               ''03/04/2023 SOLDE 1 012,50'')"
  by code_simp+

text \<open>
  Claim C4 at a cash statement: the tag is \<^verbatim>\<open>EspeceBourse\<close>, which the branch for the
  \<^verbatim>\<open>:Cash\<close> suffix does not name (it names \<^verbatim>\<open>EspeceDividende\<close>), so \<open>file_account\<close>
  returns the account of the directory without the suffix.
\<close>

theorem espece_account_without_cash:
  "classify espece_doc = Some ''EspeceBourse''
   \<and> map_of (accountList fresh_importer) ''12345678901'' = Some ''Actif:Bourso''
   \<and> fst (file_account fresh_importer (pdf_file espece_doc)) = Inr (Some ''Actif:Bourso'')"
  by (simp add: espece_searches file_account_def account_control_def importer_eval)

section \<open>Amortization schedules\<close>

lemma amortissement_searches:
  "classify amortissement_doc = Some ''Amortissement''"
  "re_search rx_file_date amortissement_doc = None"
  "re_search rx_acc_amortissement amortissement_doc
     = Some (Match (''N'' @ [degree_sign] @ '' du cr'' @ [e_acute] @ ''dit : 00040-12345678901'')
               [(1, ''00040-12345678901'')]
               ([newline] @ ''05/02/2023 500,00 400,00 90,00 10,00 0,00 0,00 99600,00 0,00''))"
  "re_findall rx_amortissement_line amortissement_doc
     = [Match ''05/02/2023 500,00 400,00 90,00 10,00 0,00 0,00 99600,00 0,00''
          [(1, ''05/02/2023''), (2, ''500,00''), (3, ''400,00''), (4, ''90,00''),
           (5, ''10,00''), (6, ''0,00''), (7, ''0,00''), (8, ''99600,00''), (9, ''0,00'')] []]"
  by code_simp+

lemma amortissement_amounts:
  "to_Decimal (CHR ''-'' # comma_to_dot ''500,00'') = Inr (Decimal True 50000 (- 2))"
  "to_Decimal (comma_to_dot ''400,00'') = Inr (Decimal False 40000 (- 2))"
  "to_Decimal (comma_to_dot ''90,00'') = Inr (Decimal False 9000 (- 2))"
  "to_Decimal (comma_to_dot ''10,00'') = Inr (Decimal False 1000 (- 2))"
  "to_Decimal (CHR ''-'' # comma_to_dot ''99600,00'') = Inr (Decimal True 9960000 (- 2))"
  by (simp_all add: comma_to_dot_def decimal_eval)

lemma date_05_02_2023:
  "parse_date example_env (Some ''05/02/2023'') = Inr (Date 2023 2 5)"
  "next_day (Date 2023 2 5) = Inr (Date 2023 2 6)"
  by (simp_all add: date_eval next_day_def)

lemma amortissement_doc_entries:
  "extract_entries example_env fresh_importer (pdf_file amortissement_doc)
     = (Inr [Transaction (meta_source (pdf_file amortissement_doc) 1) (Date 2023 2 5) ''*''
               ''ECH PRET:8028000060686223'' (Some []) {} {}
               [Posting (Some ''Actif:Boursorama:CCJoint'')
                  (Amount (Decimal True 50000 (- 2)) (Some ''EUR'')) None None,
                Posting (Some ''Passif:Pret'')
                  (Amount (Decimal False 40000 (- 2)) (Some ''EUR'')) None None,
                Posting (Some ''Depenses:Banque:Interet'')
                  (Amount (Decimal False 9000 (- 2)) (Some ''EUR'')) None None,
                Posting (Some ''Depenses:Banque:AssuEmprunt'')
                  (Amount (Decimal False 1000 (- 2)) (Some ''EUR'')) None None],
             Balance (meta_source (pdf_file amortissement_doc) 1) (BDate (Date 2023 2 6))
               ''Passif:Pret'' (Amount (Decimal True 9960000 (- 2)) (Some ''EUR''))],
        fresh_importer\<lparr>type := Some ''Amortissement''\<rparr>)"
  by (simp add: amortissement_searches amortissement_amounts date_05_02_2023
        extract_entries_def file_date_def file_name_def when_type_def
        amortissement_block_def amortissement_records_def importer_eval)

text \<open>
  Claim C9 at an amortization schedule: the transaction and the balance of its line carry
  the origin tag, and no document label (the amortization branch never assigns
  \<^verbatim>\<open>meta["document"]\<close>, which the six other branches do).
\<close>

theorem amortissement_records_lack_document:
  "fst (extract_entries example_env fresh_importer (pdf_file amortissement_doc))
     = Inr [Transaction (meta_source (pdf_file amortissement_doc) 1) (Date 2023 2 5) ''*''
               ''ECH PRET:8028000060686223'' (Some []) {} {}
               [Posting (Some ''Actif:Boursorama:CCJoint'')
                  (Amount (Decimal True 50000 (- 2)) (Some ''EUR'')) None None,
                Posting (Some ''Passif:Pret'')
                  (Amount (Decimal False 40000 (- 2)) (Some ''EUR'')) None None,
                Posting (Some ''Depenses:Banque:Interet'')
                  (Amount (Decimal False 9000 (- 2)) (Some ''EUR'')) None None,
                Posting (Some ''Depenses:Banque:AssuEmprunt'')
                  (Amount (Decimal False 1000 (- 2)) (Some ''EUR'')) None None],
             Balance (meta_source (pdf_file amortissement_doc) 1) (BDate (Date 2023 2 6))
               ''Passif:Pret'' (Amount (Decimal True 9960000 (- 2)) (Some ''EUR''))]
   \<and> map_of (meta_source (pdf_file amortissement_doc) 1) ''source'' = Some (MStr ''pdfbourso'')
   \<and> map_of (meta_source (pdf_file amortissement_doc) 1) ''document'' = None"
  by (simp add: amortissement_doc_entries)
     (simp add: meta_source_def meta_set_def new_metadata_def)

section \<open>Checking accounts\<close>

lemma compte_searches:
  "classify compte_doc = Some ''Compte''"
  "re_search rx_file_date compte_doc = None"
  "re_search rx_compte_numero compte_doc
     = Some (Match '' 12345678901'' []
               ([newline] @ ''01/02/2023 VIR SEPA 01/02/2023      12,50'' @ [newline]))"
  "re_search rx_compte_solde compte_doc = None"
  "re_findall rx_compte_line compte_doc
     = [Match (''01/02/2023 VIR SEPA 01/02/2023      12,50'' @ [newline])
          [(1, ''VIR SEPA''), (2, ''01/02/2023''), (3, ''    ''), (4, ''12,50'')] []]"
  "re_search rx_nouveau_solde compte_doc = None"
  "squeeze ''VIR SEPA'' = ''VIR SEPA''"
  "squeeze [] = []"
  by code_simp+

lemma amount_12_50:
  "to_Decimal (CHR ''-'' # normalize_grouped ''12,50'') = Inr (Decimal True 1250 (- 2))"
  "D [] = Inr (Decimal False 0 0)"
  by (simp_all add: normalize_grouped_def decimal_eval)

lemma date_01_02_2023:
  "parse_date example_env (Some ''01/02/2023'') = Inr (Date 2023 2 1)"
  by (simp add: date_eval)

text \<open>
  Claim C8 at a checking account statement without a line for the opening balance: the
  balance record is appended all the same, with an empty date and the amount 0, before the
  transaction of the statement.
\<close>

theorem balance_without_opening_line:
  "re_search rx_compte_solde (converted (pdf_file compte_doc)) = None
   \<and> fst (extract_entries example_env fresh_importer (pdf_file compte_doc))
     = Inr [Balance (meta_full (pdf_file compte_doc) 0 (''None Relev'' @ [e_acute] @ '' Compte.pdf''))
              BEmpty ''Actif:Bourso'' (Amount (Decimal False 0 0) (Some ''EUR'')),
            Transaction (meta_full (pdf_file compte_doc) 1 (''None Relev'' @ [e_acute] @ '' Compte.pdf''))
              (Date 2023 2 1) ''*'' ''VIR SEPA'' (Some []) {} {}
              [Posting (Some ''Actif:Bourso'') (Amount (Decimal True 1250 (- 2)) (Some ''EUR''))
                 None None]]"
  by (simp add: compte_searches amount_12_50 date_01_02_2023
        extract_entries_def file_date_def file_name_def when_type_def compte_block_def
        compte_opening_def compte_solde_def compte_transaction_def compte_closing_def
        montant_sign_def split_last_def importer_eval)

end
